theory Spec2Isabelle
  imports Complex_Main
begin

section \<open>The benchmark plot script \<open>utils/plot_benchmark.py\<close>\<close>

text \<open>
  The script reads \<open>summary.csv\<close> and \<open>system_info.txt\<close> from a results directory,
  derives a label per row, picks the best row of four metrics, and draws four bar
  charts into \<open>benchmark_results.png\<close>. The embedding follows the script line by
  line. Strings are lists of characters, one \<open>char\<close> per code point (code points
  below 256 only); exceptions are values of the type \<open>error\<close>.
\<close>

subsection \<open>Exceptions\<close>

datatype error =
    KeyError string
  | ValueError
  | TypeError
  | IsADirectoryError
  | LibraryError string

subsection \<open>String operations of the Python runtime\<close>

text \<open>\<open>str.isspace\<close> on one character, for code points below 256.\<close>

definition py_isspace :: "char \<Rightarrow> bool" where
  "py_isspace c =
     (let n = (of_char c :: nat)
      in (9 \<le> n \<and> n \<le> 13) \<or> (28 \<le> n \<and> n \<le> 32) \<or> n = 133 \<or> n = 160)"

text \<open>\<open>s.strip()\<close>: leading and trailing whitespace removed.\<close>

definition strip :: "string \<Rightarrow> string" where
  "strip s = rev (dropWhile py_isspace (rev (dropWhile py_isspace s)))"

text \<open>\<open>line.startswith(p)\<close>.\<close>

fun startswith :: "string \<Rightarrow> string \<Rightarrow> bool" where
  "startswith s [] = True"
| "startswith [] (p # ps) = False"
| "startswith (c # cs) (p # ps) = (c = p \<and> startswith cs ps)"

text \<open>
  A file opened in text mode translates \<open>\r\n\<close> and a lone \<open>\r\<close> to \<open>\n\<close>;
  \<open>readlines\<close> then cuts after every \<open>\n\<close> and keeps it at the end of the line.
\<close>

fun universal_newlines :: "string \<Rightarrow> string" where
  "universal_newlines [] = []"
| "universal_newlines [c] = [if c = CHR 0x0D then CHR 0x0A else c]"
| "universal_newlines (c # d # ds) =
     (if c = CHR 0x0D
      then (if d = CHR 0x0A then CHR 0x0A # universal_newlines ds
            else CHR 0x0A # universal_newlines (d # ds))
      else c # universal_newlines (d # ds))"

fun split_keepends :: "string \<Rightarrow> string list" where
  "split_keepends [] = []"
| "split_keepends (c # cs) =
     (if c = CHR 0x0A then [c] # split_keepends cs
      else (case split_keepends cs of
              [] \<Rightarrow> [[c]]
            | l # ls \<Rightarrow> (c # l) # ls))"

definition readlines :: "string \<Rightarrow> string list" where
  "readlines content = split_keepends (universal_newlines content)"

text \<open>\<open>os.path.join(d, name)\<close> on a POSIX system, for a \<open>name\<close> that is not absolute.\<close>

definition path_join :: "string \<Rightarrow> string \<Rightarrow> string" where
  "path_join d name =
     (if name \<noteq> [] \<and> hd name = CHR ''/'' then name
      else if d = [] \<or> last d = CHR ''/'' then d @ name
      else d @ ''/'' @ name)"

subsection \<open>System information (lines 19 to 35)\<close>

record sys_info =
  os_info :: string
  cpu_info :: string
  drive_info :: string

definition default_sys_info :: sys_info where
  "default_sys_info =
     \<lparr>os_info = ''OS: N/A'', cpu_info = ''CPU: N/A'', drive_info = ''Drive Type: N/A''\<rparr>"

text \<open>The body of the loop over the lines: an \<open>if\<close>/\<open>elif\<close> chain.\<close>

definition scan_line :: "string \<Rightarrow> sys_info \<Rightarrow> sys_info" where
  "scan_line line s =
     (if startswith line ''OS:'' then s\<lparr>os_info := strip line\<rparr>
      else if startswith line ''CPU:'' then s\<lparr>cpu_info := strip line\<rparr>
      else if startswith line ''Drive Type:'' then s\<lparr>drive_info := strip line\<rparr>
      else s)"

definition scan_lines :: "string list \<Rightarrow> sys_info \<Rightarrow> sys_info" where
  "scan_lines ls s = fold scan_line ls s"

definition parse_system_info :: "string \<Rightarrow> sys_info" where
  "parse_system_info content = scan_lines (readlines content) default_sys_info"

text \<open>The line shown for a prefix: the last line that starts with it, trimmed.\<close>

definition last_match :: "string \<Rightarrow> string \<Rightarrow> string list \<Rightarrow> string" where
  "last_match p dflt ls =
     (let ms = filter (\<lambda>l. startswith l p) ls
      in if ms = [] then dflt else strip (last ms))"

subsection \<open>Numbers and their strings\<close>

text \<open>
  A numeric cell holds a finite number, modelled as a real: the rounding of binary
  floating point and the IEEE infinities are outside the model. \<open>int(x)\<close> on a
  number cuts the fraction off towards zero.
\<close>

definition py_int_real :: "real \<Rightarrow> int" where
  "py_int_real x = (if 0 \<le> x then \<lfloor>x\<rfloor> else \<lceil>x\<rceil>)"

definition digit_char :: "nat \<Rightarrow> char" where
  "digit_char d = ''0123456789'' ! (d mod 10)"

fun str_nat :: "nat \<Rightarrow> string" where
  "str_nat n = (if n < 10 then [digit_char n] else str_nat (n div 10) @ [digit_char (n mod 10)])"

declare str_nat.simps [simp del]

text \<open>\<open>str(n)\<close> for an integer: its decimal digits, after a minus sign when negative.\<close>

definition py_str_int :: "int \<Rightarrow> string" where
  "py_str_int i = (if i < 0 then CHR ''-'' # str_nat (nat (- i)) else str_nat (nat i))"

definition is_digit :: "char \<Rightarrow> bool" where
  "is_digit c = (48 \<le> (of_char c :: nat) \<and> (of_char c :: nat) \<le> 57)"

definition digit_val :: "char \<Rightarrow> nat" where
  "digit_val c = of_char c - 48"

definition digits_value :: "string \<Rightarrow> nat" where
  "digits_value ds = foldl (\<lambda>a c. 10 * a + digit_val c) 0 ds"

text \<open>The digits of an integer literal: single underscores may stand between digits.\<close>

fun int_body :: "string \<Rightarrow> string option" where
  "int_body [] = None"
| "int_body [c] = (if is_digit c then Some [c] else None)"
| "int_body (c # d # ds) =
     (if \<not> is_digit c then None
      else if d = CHR ''_'' then map_option ((#) c) (int_body ds)
      else map_option ((#) c) (int_body (d # ds)))"

text \<open>
  \<open>int(s)\<close> for a string, in base ten: surrounding whitespace, an optional sign, then
  the digits; \<open>None\<close> stands for the \<open>ValueError\<close> of any other string. (The limit
  on the number of digits of recent interpreters is not modelled.)
\<close>

definition py_int_str :: "string \<Rightarrow> int option" where
  "py_int_str s =
     (case strip s of
        [] \<Rightarrow> None
      | c # cs \<Rightarrow>
          if c = CHR ''-'' then map_option (\<lambda>ds. - int (digits_value ds)) (int_body cs)
          else if c = CHR ''+'' then map_option (\<lambda>ds. int (digits_value ds)) (int_body cs)
          else map_option (\<lambda>ds. int (digits_value ds)) (int_body (c # cs)))"

subsection \<open>The table\<close>

text \<open>
  A cell of the table as a row sees it: a number, the missing value \<open>NaN\<close>, or a
  string. A column that \<open>read_csv\<close> could read as numbers holds numbers and missing
  values; any other column keeps every cell as the string of the file (or missing).
  Booleans behave as the numbers 0 and 1 in every operation of the script.
\<close>

datatype cell = Num real | NaN | Str string

datatype column = NumCol "real option list" | ObjCol "string option list"

fun column_cells :: "column \<Rightarrow> cell list" where
  "column_cells (NumCol xs) = map (\<lambda>x. case x of None \<Rightarrow> NaN | Some v \<Rightarrow> Num v) xs"
| "column_cells (ObjCol xs) = map (\<lambda>x. case x of None \<Rightarrow> NaN | Some s \<Rightarrow> Str s) xs"

text \<open>The data frame: its columns by name, each with one cell for each of \<open>nrows\<close> rows.\<close>

record frame =
  nrows :: nat
  cols :: "string \<rightharpoonup> column"

definition frame_ok :: "frame \<Rightarrow> bool" where
  "frame_ok df = (\<forall>c col. cols df c = Some col \<longrightarrow> length (column_cells col) = nrows df)"

type_synonym row = "string \<rightharpoonup> cell"

definition row_at :: "frame \<Rightarrow> nat \<Rightarrow> row" where
  "row_at df i = (\<lambda>c. case cols df c of None \<Rightarrow> None | Some col \<Rightarrow> Some (column_cells col ! i))"

definition frame_rows :: "frame \<Rightarrow> row list" where
  "frame_rows df = map (row_at df) [0..<nrows df]"

subsection \<open>The libraries\<close>

text \<open>
  What the script takes from its libraries and does not fix itself: the reader of the
  table file, the conversion of one string to a number (\<open>None\<close> when the string is
  not a number), whether the extremum of a column with no value raises or returns a
  missing index (this differs between versions of the library), the widths of the bars
  that the plotting library draws for a column of labels and values, and the formatting
  of a number with two decimals.
\<close>

record lib =
  read_csv :: "string \<Rightarrow> error + frame"
  parse_number :: "string \<Rightarrow> real option"
  all_na_raises :: bool
  bar_widths :: "string list \<Rightarrow> real option list \<Rightarrow> real option list"
  format_2f :: "real \<Rightarrow> string"

subsection \<open>Conversion to numbers (lines 38 to 46)\<close>

text \<open>\<open>pd.to_numeric(col, errors="coerce")\<close>: a string that is not a number becomes missing.\<close>

definition to_numeric :: "(string \<Rightarrow> real option) \<Rightarrow> column \<Rightarrow> column" where
  "to_numeric parse col =
     (case col of
        NumCol xs \<Rightarrow> NumCol xs
      | ObjCol xs \<Rightarrow> NumCol (map (\<lambda>x. case x of None \<Rightarrow> None | Some s \<Rightarrow> parse s) xs))"

definition numeric_cols :: "string list" where
  "numeric_cols =
     [''Actual Workers'', ''Max Memory (MB)'', ''Avg CPU (%)'', ''Max Disk Read (kB/s)'',
      ''Total Time (s)'']"

text \<open>The loop \<open>for col in numeric_cols\<close>; \<open>df[col]\<close> raises \<open>KeyError\<close> for a column that is not there.\<close>

fun coerce_columns :: "(string \<Rightarrow> real option) \<Rightarrow> string list \<Rightarrow> frame \<Rightarrow> error + frame" where
  "coerce_columns parse [] df = Inr df"
| "coerce_columns parse (c # cs) df =
     (case cols df c of
        None \<Rightarrow> Inl (KeyError c)
      | Some col \<Rightarrow> coerce_columns parse cs (df\<lparr>cols := (cols df)(c \<mapsto> to_numeric parse col)\<rparr>))"

subsection \<open>Worker labels (lines 49 to 60)\<close>

text \<open>\<open>x == 0\<close>, \<open>pd.notna(x)\<close> and \<open>int(x)\<close> on a cell.\<close>

fun cell_is_zero :: "cell \<Rightarrow> bool" where
  "cell_is_zero (Num x) = (x = 0)"
| "cell_is_zero NaN = False"
| "cell_is_zero (Str s) = False"

fun notna :: "cell \<Rightarrow> bool" where
  "notna (Num x) = True"
| "notna NaN = False"
| "notna (Str s) = True"

fun py_int :: "cell \<Rightarrow> error + int" where
  "py_int (Num x) = Inr (py_int_real x)"
| "py_int NaN = Inl ValueError"
| "py_int (Str s) = (case py_int_str s of None \<Rightarrow> Inl ValueError | Some n \<Rightarrow> Inr n)"

definition create_label :: "row \<Rightarrow> error + string" where
  "create_label row =
     (case row ''Worker Count'' of
        None \<Rightarrow> Inl (KeyError ''Worker Count'')
      | Some wc \<Rightarrow>
          if cell_is_zero wc then
            (case row ''Actual Workers'' of
               None \<Rightarrow> Inl (KeyError ''Actual Workers'')
             | Some aw \<Rightarrow>
                 if notna aw then
                   (case py_int aw of
                      Inl e \<Rightarrow> Inl e
                    | Inr n \<Rightarrow> Inr (''Auto ('' @ py_str_int n @ '')''))
                 else Inr ''Auto (N/A)'')
          else
            (case py_int wc of
               Inl e \<Rightarrow> Inl e
             | Inr n \<Rightarrow> Inr (py_str_int n)))"

text \<open>
  \<open>df.apply(f, axis=1)\<close>: \<open>f\<close> on every row in order; the first exception ends it.
  For a table with no row the library does not call \<open>f\<close> row by row, and the script
  ends with an exception at the latest when it asks for the extremum of an empty column.
\<close>

fun apply_rows :: "('r \<Rightarrow> error + 'a) \<Rightarrow> 'r list \<Rightarrow> error + 'a list" where
  "apply_rows f [] = Inr []"
| "apply_rows f (r # rs) =
     (case f r of
        Inl e \<Rightarrow> Inl e
      | Inr y \<Rightarrow> (case apply_rows f rs of Inl e \<Rightarrow> Inl e | Inr ys \<Rightarrow> Inr (y # ys)))"

definition worker_labels :: "frame \<Rightarrow> error + string list" where
  "worker_labels df = apply_rows create_label (frame_rows df)"

subsection \<open>Best rows (lines 95 to 98)\<close>

text \<open>
  The position of the extremum of a column, missing values skipped, the first position
  when several rows hold it: one pass that keeps the best position and value so far and
  replaces them only for a strictly better value.
\<close>

fun arg_scan ::
  "(real \<Rightarrow> real \<Rightarrow> bool) \<Rightarrow> nat \<Rightarrow> (nat \<times> real) option \<Rightarrow> real option list \<Rightarrow> (nat \<times> real) option" where
  "arg_scan better i acc [] = acc"
| "arg_scan better i acc (None # xs) = arg_scan better (Suc i) acc xs"
| "arg_scan better i None (Some v # xs) = arg_scan better (Suc i) (Some (i, v)) xs"
| "arg_scan better i (Some (j, w)) (Some v # xs) =
     arg_scan better (Suc i) (if better v w then Some (i, v) else Some (j, w)) xs"

definition argmin_skipna :: "real option list \<Rightarrow> nat option" where
  "argmin_skipna xs = map_option fst (arg_scan (\<lambda>v w. v < w) 0 None xs)"

definition argmax_skipna :: "real option list \<Rightarrow> nat option" where
  "argmax_skipna xs = map_option fst (arg_scan (\<lambda>v w. v > w) 0 None xs)"

text \<open>
  \<open>Series.idxmin()\<close> and \<open>Series.idxmax()\<close> on a column whose index is the row
  number. An empty column raises; a column with no value raises or gives a missing
  index, as the library version has it. The five columns are numeric when the script
  gets here, so the branch for a column of strings is never taken.
\<close>

definition idx_extremum ::
  "bool \<Rightarrow> (real option list \<Rightarrow> nat option) \<Rightarrow> column \<Rightarrow> error + nat option" where
  "idx_extremum raises arg col =
     (case col of
        ObjCol xs \<Rightarrow> Inl TypeError
      | NumCol xs \<Rightarrow>
          if xs = [] then Inl ValueError
          else (case arg xs of
                  None \<Rightarrow> if raises then Inl ValueError else Inr None
                | Some i \<Rightarrow> Inr (Some i)))"

definition idxmin :: "lib \<Rightarrow> frame \<Rightarrow> string \<Rightarrow> error + nat option" where
  "idxmin l df c =
     (case cols df c of
        None \<Rightarrow> Inl (KeyError c)
      | Some col \<Rightarrow> idx_extremum (all_na_raises l) argmin_skipna col)"

definition idxmax :: "lib \<Rightarrow> frame \<Rightarrow> string \<Rightarrow> error + nat option" where
  "idxmax l df c =
     (case cols df c of
        None \<Rightarrow> Inl (KeyError c)
      | Some col \<Rightarrow> idx_extremum (all_na_raises l) argmax_skipna col)"

record best =
  best_mem_idx :: "nat option"
  best_cpu_idx :: "nat option"
  best_disk_idx :: "nat option"
  best_time_idx :: "nat option"

definition find_best :: "lib \<Rightarrow> frame \<Rightarrow> error + best" where
  "find_best l df =
     (case idxmin l df ''Max Memory (MB)'' of
        Inl e \<Rightarrow> Inl e
      | Inr m \<Rightarrow>
     (case idxmin l df ''Avg CPU (%)'' of
        Inl e \<Rightarrow> Inl e
      | Inr c \<Rightarrow>
     (case idxmax l df ''Max Disk Read (kB/s)'' of
        Inl e \<Rightarrow> Inl e
      | Inr d \<Rightarrow>
     (case idxmin l df ''Total Time (s)'' of
        Inl e \<Rightarrow> Inl e
      | Inr t \<Rightarrow>
          Inr \<lparr>best_mem_idx = m, best_cpu_idx = c, best_disk_idx = d, best_time_idx = t\<rparr>))))"

subsection \<open>Palettes and panels (lines 101 to 188)\<close>

text \<open>
  The dictionary comprehension \<open>{label: colour(i) for i, label in enumerate(labels)}\<close>:
  the entries are stored in the order of the rows, a later row with the same label
  overwrites the earlier entry.
\<close>

definition bar_colour :: "nat option \<Rightarrow> nat \<Rightarrow> string" where
  "bar_colour best_idx i = (if Some i = best_idx then ''green'' else ''#1f77b4'')"

definition make_palette :: "nat option \<Rightarrow> string list \<Rightarrow> (string \<rightharpoonup> string)" where
  "make_palette best_idx labels =
     fold (\<lambda>(i, label) m. m(label \<mapsto> bar_colour best_idx i)) (enumerate 0 labels) Map.empty"

text \<open>
  One panel: what the script hands to \<open>sns.barplot\<close> (the label of every row on the
  y axis and as hue, the metric on the x axis, the palette) and the texts it sets. The
  annotations are those of \<open>add_labels_barh\<close>, one for each bar drawn.
\<close>

record panel =
  p_title :: string
  p_ylabel :: string
  p_xlabel :: string
  p_labels :: "string list"
  p_values :: "real option list"
  p_palette :: "string \<rightharpoonup> string"
  p_annotations :: "string list"

definition add_labels_barh :: "lib \<Rightarrow> real option list \<Rightarrow> string list" where
  "add_labels_barh l widths =
     map (\<lambda>w. case w of None \<Rightarrow> ''N/A'' | Some x \<Rightarrow> format_2f l x) widths"

definition numeric_values :: "frame \<Rightarrow> string \<Rightarrow> real option list" where
  "numeric_values df c = (case cols df c of Some (NumCol xs) \<Rightarrow> xs | _ \<Rightarrow> [])"

definition make_panel ::
  "lib \<Rightarrow> frame \<Rightarrow> string list \<Rightarrow> string \<Rightarrow> nat option \<Rightarrow> string \<Rightarrow> string \<Rightarrow> panel" where
  "make_panel l df labels c best_idx title xlabel =
     \<lparr>p_title = title, p_ylabel = ''Number of Workers'', p_xlabel = xlabel,
      p_labels = labels, p_values = numeric_values df c,
      p_palette = make_palette best_idx labels,
      p_annotations = add_labels_barh l (bar_widths l labels (numeric_values df c))\<rparr>"

text \<open>
  With \<open>hue\<close> set to the label column and a dictionary as palette, the bar of a row
  takes the colour that the palette holds for the label of the row.
\<close>

definition row_colour :: "panel \<Rightarrow> nat \<Rightarrow> string option" where
  "row_colour p i = (if i < length (p_labels p) then p_palette p (p_labels p ! i) else None)"

record figure =
  suptitle :: string
  caption_system :: string
  caption_drive :: string
  panel_mem :: panel
  panel_cpu :: panel
  panel_disk :: panel
  panel_time :: panel

definition make_figure :: "lib \<Rightarrow> sys_info \<Rightarrow> frame \<Rightarrow> string list \<Rightarrow> best \<Rightarrow> figure" where
  "make_figure l si df labels b =
     \<lparr>suptitle = ''mkbrr Performance Benchmark: Varying Worker Counts'',
      caption_system = os_info si @ '' | '' @ cpu_info si,
      caption_drive = drive_info si,
      panel_mem = make_panel l df labels ''Max Memory (MB)'' (best_mem_idx b)
                    ''Maximum Memory Usage'' ''Memory (MB)'',
      panel_cpu = make_panel l df labels ''Avg CPU (%)'' (best_cpu_idx b)
                    ''Average CPU Usage'' ''CPU Usage (%)'',
      panel_disk = make_panel l df labels ''Max Disk Read (kB/s)'' (best_disk_idx b)
                    ''Maximum Disk Read I/O'' ''Read Rate (kB/s)'',
      panel_time = make_panel l df labels ''Total Time (s)'' (best_time_idx b)
                    ''Total Processing Time'' ''Time (seconds)''\<rparr>"

subsection \<open>The program (lines 10 to 202)\<close>

text \<open>
  The file system maps a path to what is there. A run ends with an exit code or with
  an uncaught exception; it leaves the lines it printed and the files it wrote. The
  image is recorded as the figure it shows, not as the bytes of its encoding.
\<close>

datatype node = File string | Dir

type_synonym filesystem = "string \<rightharpoonup> node"

datatype status = Exit nat | Uncaught error

record outcome =
  status :: status
  stdout :: "string list"
  written :: "(string \<times> figure) list"

definition raise :: "error \<Rightarrow> outcome" where
  "raise e = \<lparr>status = Uncaught e, stdout = [], written = []\<rparr>"

text \<open>The table stage: conversion, labels, best rows. Nothing is printed or written in it.\<close>

definition derive :: "lib \<Rightarrow> frame \<Rightarrow> error + (frame \<times> string list \<times> best)" where
  "derive l df0 =
     (case coerce_columns (parse_number l) numeric_cols df0 of
        Inl e \<Rightarrow> Inl e
      | Inr df \<Rightarrow>
     (case worker_labels df of
        Inl e \<Rightarrow> Inl e
      | Inr labels \<Rightarrow>
     (case find_best l df of
        Inl e \<Rightarrow> Inl e
      | Inr b \<Rightarrow> Inr (df, labels, b))))"

text \<open>The system information: the defaults when the file is not there.\<close>

definition read_system_info :: "filesystem \<Rightarrow> string \<Rightarrow> error + sys_info" where
  "read_system_info fs sys_info_path =
     (case fs sys_info_path of
        None \<Rightarrow> Inr default_sys_info
      | Some Dir \<Rightarrow> Inl IsADirectoryError
      | Some (File content) \<Rightarrow> Inr (parse_system_info content))"

definition load_table :: "lib \<Rightarrow> node \<Rightarrow> error + frame" where
  "load_table l n = (case n of Dir \<Rightarrow> Inl IsADirectoryError | File content \<Rightarrow> read_csv l content)"

text \<open>
  Lines 16 to 188, from reading the table to the last panel: the labels, the best
  rows and the figure, or the exception that ends the run.
\<close>

definition compute ::
  "lib \<Rightarrow> filesystem \<Rightarrow> string \<Rightarrow> node \<Rightarrow> error + (string list \<times> best \<times> figure)" where
  "compute l fs results_dir n =
     (case load_table l n of
        Inl e \<Rightarrow> Inl e
      | Inr df0 \<Rightarrow>
     (case read_system_info fs (path_join results_dir ''system_info.txt'') of
        Inl e \<Rightarrow> Inl e
      | Inr si \<Rightarrow>
     (case derive l df0 of
        Inl e \<Rightarrow> Inl e
      | Inr (df, labels, b) \<Rightarrow> Inr (labels, b, make_figure l si df labels b))))"

definition plot_benchmark_results :: "lib \<Rightarrow> filesystem \<Rightarrow> string \<Rightarrow> outcome" where
  "plot_benchmark_results l fs results_dir =
     (let summary_path = path_join results_dir ''summary.csv'' in
      case fs summary_path of
        None \<Rightarrow>
          \<lparr>status = Exit 1,
           stdout = [''Error: Summary file not found at '' @ summary_path],
           written = []\<rparr>
      | Some n \<Rightarrow>
     (case compute l fs results_dir n of
        Inl e \<Rightarrow> raise e
      | Inr (labels, b, fig) \<Rightarrow>
          (let output_path = path_join results_dir ''benchmark_results.png'' in
           \<lparr>status = Exit 0,
            stdout = [''Plot saved to: '' @ output_path],
            written = [(output_path, fig)]\<rparr>)))"

definition main :: "lib \<Rightarrow> filesystem \<Rightarrow> string list \<Rightarrow> outcome" where
  "main l fs argv =
     (if length argv \<noteq> 2
      then \<lparr>status = Exit 1,
            stdout = [''Usage: python plot_benchmark.py <results_directory>''],
            written = []\<rparr>
      else plot_benchmark_results l fs (argv ! 1))"

subsection \<open>Example inputs\<close>

text \<open>
  A library instance for the examples: it reads every table file as the given frame,
  takes integer literals as numbers, draws one bar for each row and prints the integer
  part of a width.
\<close>

definition example_lib :: "frame \<Rightarrow> lib" where
  "example_lib df =
     \<lparr>read_csv = (\<lambda>content. Inr df),
      parse_number = (\<lambda>s. map_option real_of_int (py_int_str s)),
      all_na_raises = True,
      bar_widths = (\<lambda>labels values. values),
      format_2f = (\<lambda>x. py_str_int (py_int_real x))\<rparr>"

definition example_frame :: frame where
  "example_frame =
     \<lparr>nrows = 3,
      cols = [''Worker Count'' \<mapsto> NumCol [Some 0, Some 0, Some 4],
              ''Actual Workers'' \<mapsto> NumCol [Some 8, None, None],
              ''Max Memory (MB)'' \<mapsto> NumCol [Some 100, Some 50, Some 200],
              ''Avg CPU (%)'' \<mapsto> NumCol [Some 30, Some 20, Some 10],
              ''Max Disk Read (kB/s)'' \<mapsto> NumCol [Some 5, Some 7, Some 6],
              ''Total Time (s)'' \<mapsto> NumCol [Some 9, Some 8, Some 7]]\<rparr>"

definition example_fs :: filesystem where
  "example_fs = [''results/summary.csv'' \<mapsto> File ''table'']"


definition example_system_info :: string where
  "example_system_info =
     ''OS: a'' @ [CHR 0x0D, CHR 0x0A] @ ''CPU: x'' @ [CHR 0x0A] @ ''  OS: b'' @ [CHR 0x0A] @
     ''OS: c  '' @ [CHR 0x0A]"

subsection \<open>The label rule in the words of the specification\<close>

text \<open>
  The label of a row from its Worker Count \<open>w\<close> and its Actual Workers \<open>a\<close>
  (\<open>None\<close> when missing): \<open>Auto (N)\<close> or \<open>Auto (N/A)\<close> when \<open>w\<close> is 0, the
  decimal string of \<open>w\<close> otherwise, a fraction being cut off.
\<close>

definition spec_label :: "real \<Rightarrow> real option \<Rightarrow> string" where
  "spec_label w a =
     (if w = 0
      then (case a of
              Some n \<Rightarrow> ''Auto ('' @ py_str_int (py_int_real n) @ '')''
            | None \<Rightarrow> ''Auto (N/A)'')
      else py_str_int (py_int_real w))"

definition num_cell :: "real option \<Rightarrow> cell" where
  "num_cell x = (case x of None \<Rightarrow> NaN | Some v \<Rightarrow> Num v)"





subsection \<open>The best row in the words of the specification\<close>

text \<open>
  Row \<open>i\<close> holds the minimum (the maximum) of a column, missing values ignored, and
  is the first row that does.
\<close>

definition is_first_min :: "real option list \<Rightarrow> nat \<Rightarrow> bool" where
  "is_first_min xs i =
     (i < length xs \<and>
      (\<exists>v. xs ! i = Some v \<and>
         (\<forall>j<length xs. \<forall>w. xs ! j = Some w \<longrightarrow> v \<le> w \<and> (j < i \<longrightarrow> v < w))))"

definition is_first_max :: "real option list \<Rightarrow> nat \<Rightarrow> bool" where
  "is_first_max xs i =
     (i < length xs \<and>
      (\<exists>v. xs ! i = Some v \<and>
         (\<forall>j<length xs. \<forall>w. xs ! j = Some w \<longrightarrow> w \<le> v \<and> (j < i \<longrightarrow> w < v))))"


text \<open>
  The invariant of the pass over a column: \<open>r\<close> is the first best position of the
  cells read so far and its value, \<open>k\<close> being the order that "better" goes by.
\<close>

definition scanned :: "(real \<Rightarrow> real) \<Rightarrow> real option list \<Rightarrow> (nat \<times> real) option \<Rightarrow> bool" where
  "scanned k ys r =
     (case r of
        None \<Rightarrow> (\<forall>y\<in>set ys. y = None)
      | Some (j, v) \<Rightarrow>
          j < length ys \<and> ys ! j = Some v \<and>
          (\<forall>m<length ys. \<forall>w. ys ! m = Some w \<longrightarrow> k v \<le> k w \<and> (m < j \<longrightarrow> k v < k w)))"

subsection \<open>Highlighting in the words of the specification\<close>

text \<open>In a panel, the bar of row \<open>b\<close> is green and the bar of no other row is.\<close>

definition only_best_green :: "panel \<Rightarrow> nat \<Rightarrow> bool" where
  "only_best_green p b =
     list_all (\<lambda>i. (row_colour p i = Some ''green'') = (i = b)) [0..<length (p_labels p)]"


text \<open>A table in which two rows that are not the best have the same label.\<close>

definition example_frame_dup :: frame where
  "example_frame_dup =
     \<lparr>nrows = 3,
      cols = [''Worker Count'' \<mapsto> NumCol [Some 2, Some 4, Some 4],
              ''Actual Workers'' \<mapsto> NumCol [None, None, None],
              ''Max Memory (MB)'' \<mapsto> NumCol [Some 10, Some 20, Some 30],
              ''Avg CPU (%)'' \<mapsto> NumCol [Some 10, Some 20, Some 30],
              ''Max Disk Read (kB/s)'' \<mapsto> NumCol [Some 30, Some 20, Some 10],
              ''Total Time (s)'' \<mapsto> NumCol [Some 10, Some 20, Some 30]]\<rparr>"

definition example_dup_best :: best where
  "example_dup_best =
     \<lparr>best_mem_idx = Some 0, best_cpu_idx = Some 0, best_disk_idx = Some 0, best_time_idx = Some 0\<rparr>"

definition example_dup_figure :: figure where
  "example_dup_figure =
     make_figure (example_lib example_frame_dup) default_sys_info example_frame_dup
       [''2'', ''4'', ''4''] example_dup_best"

subsection \<open>Valid tables and required columns\<close>

text \<open>
  The six columns that the script reads. A table is valid when it has them, its
  columns have one cell for every row, Worker Count holds a number in every row, and
  each of the four metric columns holds at least one number (as a number, or as a
  string that the conversion accepts).
\<close>

definition metric_cols :: "string list" where
  "metric_cols = [''Max Memory (MB)'', ''Avg CPU (%)'', ''Max Disk Read (kB/s)'', ''Total Time (s)'']"


definition cell_number :: "lib \<Rightarrow> cell \<Rightarrow> real option" where
  "cell_number l x = (case x of Num v \<Rightarrow> Some v | NaN \<Rightarrow> None | Str s \<Rightarrow> parse_number l s)"

definition valid_table :: "lib \<Rightarrow> frame \<Rightarrow> bool" where
  "valid_table l df =
     (frame_ok df \<and>
      (\<exists>ws. cols df ''Worker Count'' = Some (NumCol (map Some ws))) \<and>
      (\<forall>c\<in>set numeric_cols. cols df c \<noteq> None) \<and>
      (\<forall>c\<in>set metric_cols. \<forall>col. cols df c = Some col \<longrightarrow>
         (\<exists>x\<in>set (column_cells col). cell_number l x \<noteq> None)))"



text \<open>
  A table whose memory column holds no value, and the example library with an
  extremum that returns a missing index for such a column.
\<close>

definition example_frame_no_values :: frame where
  "example_frame_no_values =
     \<lparr>nrows = 3,
      cols = [''Worker Count'' \<mapsto> NumCol [Some 0, Some 0, Some 4],
              ''Actual Workers'' \<mapsto> NumCol [Some 8, None, None],
              ''Max Memory (MB)'' \<mapsto> NumCol [None, None, None],
              ''Avg CPU (%)'' \<mapsto> NumCol [Some 30, Some 20, Some 10],
              ''Max Disk Read (kB/s)'' \<mapsto> NumCol [Some 5, Some 7, Some 6],
              ''Total Time (s)'' \<mapsto> NumCol [Some 9, Some 8, Some 7]]\<rparr>"

definition example_lib_na :: "frame \<Rightarrow> lib" where
  "example_lib_na df = (example_lib df)\<lparr>all_na_raises := False\<rparr>"

subsection \<open>Properties of the system information parser\<close>

lemma startswith_os_cpu: "startswith l ''OS:'' \<Longrightarrow> \<not> startswith l ''CPU:''"
  by (cases l) auto

lemma startswith_os_drive: "startswith l ''OS:'' \<Longrightarrow> \<not> startswith l ''Drive Type:''"
  by (cases l) auto

lemma startswith_cpu_drive: "startswith l ''CPU:'' \<Longrightarrow> \<not> startswith l ''Drive Type:''"
  by (cases l) auto

lemma last_match_snoc:
  "last_match p dflt (ls @ [l]) = (if startswith l p then strip l else last_match p dflt ls)"
  by (simp add: last_match_def)

lemma scan_lines_snoc: "scan_lines (ls @ [l]) s = scan_line l (scan_lines ls s)"
  by (simp add: scan_lines_def)

lemma scan_lines_fields:
  "os_info (scan_lines ls s) = last_match ''OS:'' (os_info s) ls \<and>
   cpu_info (scan_lines ls s) = last_match ''CPU:'' (cpu_info s) ls \<and>
   drive_info (scan_lines ls s) = last_match ''Drive Type:'' (drive_info s) ls"
proof (induction ls rule: rev_induct)
  case Nil
  show ?case by (simp add: scan_lines_def last_match_def)
next
  case (snoc l ls)
  show ?case
  proof (cases "startswith l ''OS:''")
    case True
    with snoc startswith_os_cpu [OF True] startswith_os_drive [OF True] show ?thesis
      by (simp only: scan_lines_snoc last_match_snoc scan_line_def) simp
  next
    case no_os: False
    show ?thesis
    proof (cases "startswith l ''CPU:''")
      case True
      with snoc no_os startswith_cpu_drive [OF True] show ?thesis
        by (simp only: scan_lines_snoc last_match_snoc scan_line_def) simp
    next
      case False
      with snoc no_os show ?thesis
        by (simp only: scan_lines_snoc last_match_snoc scan_line_def) simp
    qed
  qed
qed

text \<open>
  C6: the parser goes through the lines in order; for each of the prefixes \<open>OS:\<close>,
  \<open>CPU:\<close> and \<open>Drive Type:\<close> the field shown is the trimmed text of the last line
  of the file that starts with the prefix, and the default when no line does.
\<close>

theorem system_info_last_line_wins:
  "os_info (parse_system_info content) = last_match ''OS:'' ''OS: N/A'' (readlines content) \<and>
   cpu_info (parse_system_info content) = last_match ''CPU:'' ''CPU: N/A'' (readlines content) \<and>
   drive_info (parse_system_info content) =
     last_match ''Drive Type:'' ''Drive Type: N/A'' (readlines content)"
proof -
  have "os_info default_sys_info = ''OS: N/A''" "cpu_info default_sys_info = ''CPU: N/A''"
    "drive_info default_sys_info = ''Drive Type: N/A''"
    by (simp_all add: default_sys_info_def)
  with scan_lines_fields [of "readlines content" default_sys_info] show ?thesis
    by (simp add: parse_system_info_def)
qed

theorem system_info_last_line_wins_witness:
  "os_info (parse_system_info example_system_info) = ''OS: c'' \<and>
   cpu_info (parse_system_info example_system_info) = ''CPU: x'' \<and>
   drive_info (parse_system_info example_system_info) = ''Drive Type: N/A''"
  using system_info_last_line_wins [of example_system_info]
  by (simp add: example_system_info_def readlines_def last_match_def strip_def py_isspace_def)

subsection \<open>Properties of the program\<close>

text \<open>
  C4: when the results directory holds no \<open>summary.csv\<close>, the program prints the
  error message with the path it looked for, exits with code 1 and writes no file.
\<close>

theorem missing_summary_exits_1:
  assumes "fs (path_join d ''summary.csv'') = None"
  shows "main l fs [prog, d] =
           \<lparr>status = Exit 1,
            stdout = [''Error: Summary file not found at '' @ path_join d ''summary.csv''],
            written = []\<rparr>"
  using assms by (simp add: main_def plot_benchmark_results_def)

theorem missing_summary_exits_1_witness:
  "main (example_lib example_frame) Map.empty [''plot_benchmark.py'', ''results''] =
     \<lparr>status = Exit 1,
      stdout = [''Error: Summary file not found at results/summary.csv''],
      written = []\<rparr>"
  using missing_summary_exits_1 [of Map.empty "''results''" "example_lib example_frame" "''plot_benchmark.py''"]
  by (simp add: path_join_def)



subsection \<open>Properties of the conversion and of the labels\<close>


lemma create_label_numeric:
  assumes "row ''Worker Count'' = Some (Num w)"
    and "row ''Actual Workers'' = Some (num_cell a)"
  shows "create_label row = Inr (spec_label w a)"
  using assms by (cases a) (simp_all add: create_label_def spec_label_def num_cell_def)

lemma apply_rows_all_ok:
  "(\<And>r. r \<in> set rs \<Longrightarrow> f r = Inr (g r)) \<Longrightarrow> apply_rows f rs = Inr (map g rs)"
  by (induction rs) simp_all

lemma apply_rows_map_ok:
  "(\<And>i. i \<in> set js \<Longrightarrow> f (h i) = Inr (g i)) \<Longrightarrow> apply_rows f (map h js) = Inr (map g js)"
  by (induction js) simp_all

lemma apply_rows_first_error:
  "f r = Inl e \<Longrightarrow> apply_rows f (r # rs) = Inl e"
  by simp

lemma column_cells_NumCol: "column_cells (NumCol xs) = map num_cell xs"
  by (simp add: num_cell_def)

lemma row_at_numeric:
  assumes "cols df c = Some (NumCol xs)" and "i < length xs"
  shows "row_at df i c = Some (num_cell (xs ! i))"
  using assms by (simp add: row_at_def num_cell_def)

lemma worker_labels_numeric:
  assumes wc: "cols df ''Worker Count'' = Some (NumCol (map Some ws))"
    and aw: "cols df ''Actual Workers'' = Some (NumCol as)"
    and lw: "length ws = nrows df" and la: "length as = nrows df"
  shows "worker_labels df = Inr (map (\<lambda>i. spec_label (ws ! i) (as ! i)) [0..<nrows df])"
proof -
  have "create_label (row_at df i) = Inr (spec_label (ws ! i) (as ! i))" if "i < nrows df" for i
  proof (rule create_label_numeric)
    show "row_at df i ''Worker Count'' = Some (Num (ws ! i))"
      using row_at_numeric [OF wc, of i] that lw by (simp add: num_cell_def)
    show "row_at df i ''Actual Workers'' = Some (num_cell (as ! i))"
      using row_at_numeric [OF aw, of i] that la by simp
  qed
  then have "apply_rows create_label (map (row_at df) [0..<nrows df]) =
             Inr (map (\<lambda>r. spec_label (ws ! r) (as ! r)) [0..<nrows df])"
    by (intro apply_rows_map_ok) simp
  then show ?thesis by (simp add: worker_labels_def frame_rows_def)
qed

lemma to_numeric_idem: "to_numeric p (to_numeric p col) = to_numeric p col"
  by (cases col) (simp_all add: to_numeric_def)


lemma coerce_columns_ok:
  "\<forall>c\<in>set cs. cols df c \<noteq> None \<Longrightarrow>
   \<exists>df'. coerce_columns p cs df = Inr df' \<and> nrows df' = nrows df \<and>
     (\<forall>c. cols df' c = (if c \<in> set cs then map_option (to_numeric p) (cols df c) else cols df c))"
proof (induction cs arbitrary: df)
  case Nil
  then show ?case by simp
next
  case (Cons c cs)
  from Cons.prems obtain col where col: "cols df c = Some col" by auto
  let ?df1 = "df\<lparr>cols := (cols df)(c \<mapsto> to_numeric p col)\<rparr>"
  have "\<forall>c'\<in>set cs. cols ?df1 c' \<noteq> None" using Cons.prems by simp
  from Cons.IH [OF this] obtain df' where
    r: "coerce_columns p cs ?df1 = Inr df'" and n: "nrows df' = nrows ?df1" and
    c: "\<And>c'. cols df' c' = (if c' \<in> set cs then map_option (to_numeric p) (cols ?df1 c') else cols ?df1 c')"
    by blast
  have "coerce_columns p (c # cs) df = Inr df'" using col r by simp
  moreover have "nrows df' = nrows df" using n by simp
  moreover have "cols df' c' = (if c' \<in> set (c # cs) then map_option (to_numeric p) (cols df c') else cols df c')" for c'
    using c [of c'] col by (simp add: to_numeric_idem)
  ultimately show ?case by blast
qed


lemmas eval_strings =
  strip_def py_isspace_def is_digit_def digits_value_def digit_val_def py_int_str_def
  py_str_int_def str_nat.simps digit_char_def py_int_real_def path_join_def









subsection \<open>Properties of the best rows\<close>

lemma scanned_skip: "scanned k ys r \<Longrightarrow> scanned k (ys @ [None]) r"
  by (auto simp: scanned_def nth_append split: option.splits)

lemma scanned_first: "scanned k ys None \<Longrightarrow> scanned k (ys @ [Some v]) (Some (length ys, v))"
  by (auto simp: scanned_def nth_append all_set_conv_all_nth)

lemma scanned_better:
  "scanned k ys (Some (j, w)) \<Longrightarrow> k v < k w \<Longrightarrow> scanned k (ys @ [Some v]) (Some (length ys, v))"
  by (fastforce simp: scanned_def nth_append)

lemma scanned_keep:
  "scanned k ys (Some (j, w)) \<Longrightarrow> \<not> k v < k w \<Longrightarrow> scanned k (ys @ [Some v]) (Some (j, w))"
  by (auto simp: scanned_def nth_append)

lemma arg_scan_scanned:
  assumes "\<And>v w. better v w \<longleftrightarrow> k v < k w"
  shows "scanned k ys acc \<Longrightarrow> scanned k (ys @ xs) (arg_scan better (length ys) acc xs)"
proof (induction xs arbitrary: ys acc)
  case Nil
  then show ?case by simp
next
  case (Cons x xs)
  show ?case
  proof (cases x)
    case None
    from Cons.IH [OF scanned_skip [OF Cons.prems]] None show ?thesis by simp
  next
    case (Some v)
    show ?thesis
    proof (cases acc)
      case None
      from Cons.IH [OF scanned_first [of k ys v]] Cons.prems None Some show ?thesis by simp
    next
      case acc: (Some jw)
      obtain j w where jw: "jw = (j, w)" by (cases jw)
      show ?thesis
      proof (cases "k v < k w")
        case True
        from Cons.IH [OF scanned_better [of k ys j w v]] Cons.prems acc jw True Some assms
        show ?thesis by simp
      next
        case False
        from Cons.IH [OF scanned_keep [of k ys j w v]] Cons.prems acc jw False Some assms
        show ?thesis by simp
      qed
    qed
  qed
qed

lemma scanned_Nil: "scanned k [] None"
  by (simp add: scanned_def)

lemma argmin_skipna_first_min:
  assumes "Some v \<in> set xs"
  shows "\<exists>i. argmin_skipna xs = Some i \<and> is_first_min xs i"
proof -
  have s: "scanned (\<lambda>x. x) xs (arg_scan (\<lambda>v w. v < w) 0 None xs)"
    using arg_scan_scanned [of "\<lambda>v w. v < w" "\<lambda>x. x" "[]" None xs] scanned_Nil by simp
  show ?thesis
  proof (cases "arg_scan (\<lambda>v w. v < w) 0 None xs")
    case None
    with s assms show ?thesis by (auto simp: scanned_def)
  next
    case (Some jv)
    obtain j u where "jv = (j, u)" by (cases jv)
    with s Some show ?thesis
      by (auto simp: scanned_def argmin_skipna_def is_first_min_def)
  qed
qed

lemma argmax_skipna_first_max:
  assumes "Some v \<in> set xs"
  shows "\<exists>i. argmax_skipna xs = Some i \<and> is_first_max xs i"
proof -
  have s: "scanned (\<lambda>x. - x) xs (arg_scan (\<lambda>v w. v > w) 0 None xs)"
    using arg_scan_scanned [of "\<lambda>v w. v > w" "\<lambda>x. - x" "[]" None xs] scanned_Nil by simp
  show ?thesis
  proof (cases "arg_scan (\<lambda>v w. v > w) 0 None xs")
    case None
    with s assms show ?thesis by (auto simp: scanned_def)
  next
    case (Some jv)
    obtain j u where "jv = (j, u)" by (cases jv)
    with s Some show ?thesis
      by (auto simp: scanned_def argmax_skipna_def is_first_max_def)
  qed
qed

lemma argmin_skipna_all_missing: "\<forall>x\<in>set xs. x = None \<Longrightarrow> arg_scan better i None xs = None"
  by (induction xs arbitrary: i) auto

lemma idx_extremum_value:
  assumes "Some v \<in> set xs" and "arg xs = Some i"
  shows "idx_extremum raises arg (NumCol xs) = Inr (Some i)"
  using assms by (auto simp: idx_extremum_def)

text \<open>
  C3: when each of the four metric columns holds at least one value, the four best
  rows are found and are the row of the minimum of Max Memory (MB), of the minimum of
  Avg CPU (%), of the maximum of Max Disk Read (kB/s) and of the minimum of
  Total Time (s), rows with a missing value ignored (the first such row when several
  hold the extremum). For the memory column 100, 50, 200 the best row is row 1,
  counted from 0.
\<close>

theorem best_rows_are_extrema:
  assumes "cols df ''Max Memory (MB)'' = Some (NumCol ms)" and "\<exists>v. Some v \<in> set ms"
    and "cols df ''Avg CPU (%)'' = Some (NumCol cs)" and "\<exists>v. Some v \<in> set cs"
    and "cols df ''Max Disk Read (kB/s)'' = Some (NumCol ds)" and "\<exists>v. Some v \<in> set ds"
    and "cols df ''Total Time (s)'' = Some (NumCol ts)" and "\<exists>v. Some v \<in> set ts"
  shows "\<exists>im ic id it.
           find_best l df =
             Inr \<lparr>best_mem_idx = Some im, best_cpu_idx = Some ic, best_disk_idx = Some id,
                  best_time_idx = Some it\<rparr> \<and>
           is_first_min ms im \<and> is_first_min cs ic \<and> is_first_max ds id \<and> is_first_min ts it"
proof -
  from assms(2) obtain vm where "Some vm \<in> set ms" by blast
  from argmin_skipna_first_min [OF this] this obtain im where
    im: "idx_extremum (all_na_raises l) argmin_skipna (NumCol ms) = Inr (Some im)" "is_first_min ms im"
    by (auto simp: idx_extremum_value)
  from assms(4) obtain vc where "Some vc \<in> set cs" by blast
  from argmin_skipna_first_min [OF this] this obtain ic where
    ic: "idx_extremum (all_na_raises l) argmin_skipna (NumCol cs) = Inr (Some ic)" "is_first_min cs ic"
    by (auto simp: idx_extremum_value)
  from assms(6) obtain vd where "Some vd \<in> set ds" by blast
  from argmax_skipna_first_max [OF this] this obtain id where
    id: "idx_extremum (all_na_raises l) argmax_skipna (NumCol ds) = Inr (Some id)" "is_first_max ds id"
    by (auto simp: idx_extremum_value)
  from assms(8) obtain vt where "Some vt \<in> set ts" by blast
  from argmin_skipna_first_min [OF this] this obtain it where
    it: "idx_extremum (all_na_raises l) argmin_skipna (NumCol ts) = Inr (Some it)" "is_first_min ts it"
    by (auto simp: idx_extremum_value)
  have "find_best l df =
          Inr \<lparr>best_mem_idx = Some im, best_cpu_idx = Some ic, best_disk_idx = Some id,
               best_time_idx = Some it\<rparr>"
    using assms(1,3,5,7) im(1) ic(1) id(1) it(1) by (simp add: find_best_def idxmin_def idxmax_def)
  with im(2) ic(2) id(2) it(2) show ?thesis by blast
qed

lemma example_best:
  "find_best l example_frame =
     Inr \<lparr>best_mem_idx = Some 1, best_cpu_idx = Some 2, best_disk_idx = Some 1,
          best_time_idx = Some 2\<rparr>"
  by (simp add: find_best_def idxmin_def idxmax_def idx_extremum_def argmin_skipna_def
      argmax_skipna_def example_frame_def)

theorem best_rows_are_extrema_witness:
  "find_best (example_lib example_frame) example_frame =
     Inr \<lparr>best_mem_idx = Some 1, best_cpu_idx = Some 2, best_disk_idx = Some 1,
          best_time_idx = Some 2\<rparr> \<and>
   is_first_min [Some 100, Some 50, Some 200] 1 \<and> is_first_min [Some 30, Some 20, Some 10] 2 \<and>
   is_first_max [Some 5, Some 7, Some 6] 1 \<and> is_first_min [Some 9, Some 8, Some 7] 2"
proof -
  have c: "cols example_frame ''Max Memory (MB)'' = Some (NumCol [Some 100, Some 50, Some 200])"
    "\<exists>v. Some v \<in> set [Some 100, Some 50, Some (200::real)]"
    "cols example_frame ''Avg CPU (%)'' = Some (NumCol [Some 30, Some 20, Some 10])"
    "\<exists>v. Some v \<in> set [Some 30, Some 20, Some (10::real)]"
    "cols example_frame ''Max Disk Read (kB/s)'' = Some (NumCol [Some 5, Some 7, Some 6])"
    "\<exists>v. Some v \<in> set [Some 5, Some 7, Some (6::real)]"
    "cols example_frame ''Total Time (s)'' = Some (NumCol [Some 9, Some 8, Some 7])"
    "\<exists>v. Some v \<in> set [Some 9, Some 8, Some (7::real)]"
    by (auto simp: example_frame_def)
  from best_rows_are_extrema [OF c, of "example_lib example_frame"] example_best
  show ?thesis by auto
qed

subsection \<open>Properties of the palettes\<close>

lemma make_palette_snoc:
  "make_palette b (ls @ [l]) = (make_palette b ls)(l \<mapsto> bar_colour b (length ls))"
  by (simp add: make_palette_def enumerate_append_eq)

lemma make_palette_Nil: "make_palette b [] = Map.empty"
  by (simp add: make_palette_def)

lemma make_palette_last:
  "l \<in> set ls \<Longrightarrow>
   \<exists>j<length ls. ls ! j = l \<and> (\<forall>k<length ls. ls ! k = l \<longrightarrow> k \<le> j) \<and>
     make_palette b ls l = Some (bar_colour b j)"
proof (induction ls rule: rev_induct)
  case Nil
  then show ?case by simp
next
  case (snoc x ls)
  show ?case
  proof (cases "x = l")
    case True
    have "length ls < length (ls @ [x])" by simp
    moreover have "(ls @ [x]) ! length ls = l" using True by simp
    moreover have "\<forall>k<length (ls @ [x]). (ls @ [x]) ! k = l \<longrightarrow> k \<le> length ls" by simp
    moreover have "make_palette b (ls @ [x]) l = Some (bar_colour b (length ls))"
      using True by (simp add: make_palette_snoc)
    ultimately show ?thesis by blast
  next
    case False
    with snoc.prems have "l \<in> set ls" by simp
    from snoc.IH [OF this] obtain j where
      j: "j < length ls" "ls ! j = l" "\<forall>k<length ls. ls ! k = l \<longrightarrow> k \<le> j"
        "make_palette b ls l = Some (bar_colour b j)"
      by blast
    have "j < length (ls @ [x])" using j(1) by simp
    moreover have "(ls @ [x]) ! j = l" using j(1,2) by (simp add: nth_append)
    moreover have "\<forall>k<length (ls @ [x]). (ls @ [x]) ! k = l \<longrightarrow> k \<le> j"
      using j(3) False by (auto simp: nth_append less_Suc_eq)
    moreover have "make_palette b (ls @ [x]) l = Some (bar_colour b j)"
      using j(4) False by (simp add: make_palette_snoc)
    ultimately show ?thesis by blast
  qed
qed

lemma row_colour_make_panel:
  "i < length labels \<Longrightarrow>
   row_colour (make_panel l df labels c best title xlabel) i = make_palette best labels (labels ! i)"
  by (simp add: row_colour_def make_panel_def)

lemma only_best_green_iff:
  "only_best_green p b \<longleftrightarrow> (\<forall>i<length (p_labels p). (row_colour p i = Some ''green'') = (i = b))"
  by (auto simp: only_best_green_def list_all_iff)

lemma bar_colour_green: "bar_colour best j = ''green'' \<longleftrightarrow> best = Some j"
  by (auto simp: bar_colour_def)

lemma row_colour_last:
  assumes "i < length labels" and "j < length labels" and "labels ! j = labels ! i"
    and "\<forall>k<length labels. labels ! k = labels ! i \<longrightarrow> k \<le> j"
  shows "row_colour (make_panel l df labels c best title xlabel) i = Some (bar_colour best j)"
proof -
  have "labels ! i \<in> set labels" using assms(1) by simp
  from make_palette_last [OF this, of best] obtain j' where
    j': "j' < length labels" "labels ! j' = labels ! i"
      "\<forall>k<length labels. labels ! k = labels ! i \<longrightarrow> k \<le> j'"
      "make_palette best labels (labels ! i) = Some (bar_colour best j')"
    by blast
  have "j \<le> j'" using j'(3) assms(2,3) by blast
  moreover have "j' \<le> j" using assms(4) j'(1,2) by blast
  ultimately have "j' = j" by simp
  with j'(4) assms(1) show ?thesis by (simp add: row_colour_make_panel)
qed

lemma last_row_of_label:
  assumes "i < length (labels :: string list)"
  shows "\<exists>j<length labels. labels ! j = labels ! i \<and>
           (\<forall>k<length labels. labels ! k = labels ! i \<longrightarrow> k \<le> j)"
proof -
  have "labels ! i \<in> set labels" using assms by simp
  from make_palette_last [OF this, of None] show ?thesis by blast
qed

lemma only_best_green_make_panel:
  assumes b: "b < length labels"
  shows "only_best_green (make_panel l df labels c (Some b) title xlabel) b \<longleftrightarrow>
         (\<forall>i<length labels. i \<noteq> b \<longrightarrow> labels ! i \<noteq> labels ! b)"
proof
  let ?p = "make_panel l df labels c (Some b) title xlabel"
  have len: "length (p_labels ?p) = length labels" by (simp add: make_panel_def)
  assume g: "only_best_green ?p b"
  show "\<forall>i<length labels. i \<noteq> b \<longrightarrow> labels ! i \<noteq> labels ! b"
  proof (intro allI impI notI)
    fix i assume i: "i < length labels" "i \<noteq> b" "labels ! i = labels ! b"
    have "row_colour ?p i = row_colour ?p b"
      using i(1,3) b by (simp add: row_colour_make_panel)
    moreover have "row_colour ?p b = Some ''green''"
      using g b len by (simp add: only_best_green_iff)
    moreover have "row_colour ?p i \<noteq> Some ''green''"
      using g i(1,2) len by (simp add: only_best_green_iff)
    ultimately show False by simp
  qed
next
  let ?p = "make_panel l df labels c (Some b) title xlabel"
  have len: "length (p_labels ?p) = length labels" by (simp add: make_panel_def)
  assume u: "\<forall>i<length labels. i \<noteq> b \<longrightarrow> labels ! i \<noteq> labels ! b"
  have "(row_colour ?p i = Some ''green'') = (i = b)" if i: "i < length labels" for i
  proof -
    from last_row_of_label [OF i] obtain j where
      j: "j < length labels" "labels ! j = labels ! i"
        "\<forall>k<length labels. labels ! k = labels ! i \<longrightarrow> k \<le> j"
      by blast
    have c: "row_colour ?p i = Some (bar_colour (Some b) j)"
      using row_colour_last [OF i j] .
    show ?thesis
    proof (cases "i = b")
      case True
      with j u have "j = b" by metis
      with c True show ?thesis by (simp add: bar_colour_def)
    next
      case False
      with u i have "labels ! i \<noteq> labels ! b" by blast
      with j(2) have "j \<noteq> b" by auto
      with c False show ?thesis by (simp add: bar_colour_def)
    qed
  qed
  then show "only_best_green ?p b" by (simp add: only_best_green_iff len)
qed

text \<open>
  C8, amended: the palette of a panel is keyed by the label, not by the row. Rows
  with the same label get the same colour in every panel, and it is the colour that
  the row with the largest index among them assigns (green when that row is the best
  row of the panel, the default colour otherwise). The best row is green and no other
  row is exactly when no other row has the label of the best row; labels that are
  pairwise distinct are enough for that.
\<close>

theorem palette_keyed_by_label:
  assumes p: "p = make_panel l df labels c best title xlabel"
  shows
   "(\<forall>i<length labels. \<forall>j<length labels. labels ! i = labels ! j \<longrightarrow>
       row_colour p i = row_colour p j) \<and>
    (\<forall>i<length labels. \<forall>j<length labels.
       labels ! j = labels ! i \<and> (\<forall>k<length labels. labels ! k = labels ! i \<longrightarrow> k \<le> j) \<longrightarrow>
       row_colour p i = Some (bar_colour best j)) \<and>
    (\<forall>b<length labels. best = Some b \<longrightarrow>
       (only_best_green p b \<longleftrightarrow> (\<forall>i<length labels. i \<noteq> b \<longrightarrow> labels ! i \<noteq> labels ! b))) \<and>
    (\<forall>b<length labels. best = Some b \<and> distinct labels \<longrightarrow> only_best_green p b)"
proof -
  have same: "\<forall>i<length labels. \<forall>j<length labels. labels ! i = labels ! j \<longrightarrow>
       row_colour p i = row_colour p j"
    by (simp add: p row_colour_make_panel)
  have last: "\<forall>i<length labels. \<forall>j<length labels.
       labels ! j = labels ! i \<and> (\<forall>k<length labels. labels ! k = labels ! i \<longrightarrow> k \<le> j) \<longrightarrow>
       row_colour p i = Some (bar_colour best j)"
    unfolding p using row_colour_last by blast
  have only: "\<forall>b<length labels. best = Some b \<longrightarrow>
       (only_best_green p b \<longleftrightarrow> (\<forall>i<length labels. i \<noteq> b \<longrightarrow> labels ! i \<noteq> labels ! b))"
    unfolding p using only_best_green_make_panel by blast
  have "\<forall>b<length labels. best = Some b \<and> distinct labels \<longrightarrow> only_best_green p b"
  proof (intro allI impI)
    fix b assume b: "b < length labels" "best = Some b \<and> distinct labels"
    then have "\<forall>i<length labels. i \<noteq> b \<longrightarrow> labels ! i \<noteq> labels ! b"
      by (simp add: nth_eq_iff_index_eq)
    with only b show "only_best_green p b" by blast
  qed
  with same last only show ?thesis by blast
qed

lemmas eval_figure =
  make_figure_def make_panel_def row_colour_def only_best_green_def make_palette_def
  bar_colour_def numeric_values_def

text \<open>
  C8, as stated, fails in its last part: in this table rows 1 and 2 share the label
  \<open>4\<close>, yet in each of the four panels the best row, row 0, is green and no other
  row is.
\<close>

theorem duplicate_labels_one_green:
  "compute (example_lib example_frame_dup) example_fs ''results'' (File ''table'') =
     Inr ([''2'', ''4'', ''4''], example_dup_best, example_dup_figure) \<and>
   \<not> distinct [''2'', ''4'', ''4''] \<and>
   only_best_green (panel_mem example_dup_figure) 0 \<and>
   only_best_green (panel_cpu example_dup_figure) 0 \<and>
   only_best_green (panel_disk example_dup_figure) 0 \<and>
   only_best_green (panel_time example_dup_figure) 0"
proof -
  have d: "derive (example_lib example_frame_dup) example_frame_dup =
             Inr (example_frame_dup, [''2'', ''4'', ''4''], example_dup_best)"
    by (simp add: derive_def numeric_cols_def to_numeric_def example_frame_dup_def
        worker_labels_def frame_rows_def row_at_def create_label_def upt_rec
        find_best_def idxmin_def idxmax_def idx_extremum_def argmin_skipna_def argmax_skipna_def
        example_dup_best_def eval_strings fun_upd_twist)
  have c: "compute (example_lib example_frame_dup) example_fs ''results'' (File ''table'') =
     Inr ([''2'', ''4'', ''4''], example_dup_best, example_dup_figure)"
  proof -
    have lt: "load_table (example_lib example_frame_dup) (File ''table'') = Inr example_frame_dup"
      by (simp add: load_table_def example_lib_def)
    have si: "read_system_info example_fs (path_join ''results'' ''system_info.txt'') =
                Inr default_sys_info"
      by (simp add: read_system_info_def example_fs_def path_join_def)
    show ?thesis
      by (simp add: compute_def lt si d example_dup_figure_def)
  qed
  have g: "only_best_green (panel_mem example_dup_figure) 0"
    "only_best_green (panel_cpu example_dup_figure) 0"
    "only_best_green (panel_disk example_dup_figure) 0"
    "only_best_green (panel_time example_dup_figure) 0"
    by (simp_all add: example_dup_figure_def example_dup_best_def eval_figure upt_rec)
  from c g show ?thesis by simp
qed

theorem palette_keyed_by_label_witness:
  "row_colour (panel_mem example_dup_figure) 1 = row_colour (panel_mem example_dup_figure) 2 \<and>
   row_colour (panel_mem example_dup_figure) 1 = Some ''#1f77b4'' \<and>
   only_best_green (panel_mem example_dup_figure) 0"
proof -
  let ?labels = "[''2'', ''4'', ''4'']"
  have p: "panel_mem example_dup_figure =
             make_panel (example_lib example_frame_dup) example_frame_dup ?labels
               ''Max Memory (MB)'' (Some 0) ''Maximum Memory Usage'' ''Memory (MB)''"
    by (simp add: example_dup_figure_def make_figure_def example_dup_best_def)
  note t = palette_keyed_by_label [OF p]
  have same: "row_colour (panel_mem example_dup_figure) 1 = row_colour (panel_mem example_dup_figure) 2"
    using t [THEN conjunct1, rule_format, of 1 2] by simp
  have "row_colour (panel_mem example_dup_figure) 1 = Some (bar_colour (Some 0) 2)"
    using t [THEN conjunct2, THEN conjunct1, rule_format, of 1 2] by (simp add: less_Suc_eq)
  then have blue: "row_colour (panel_mem example_dup_figure) 1 = Some ''#1f77b4''"
    by (simp add: bar_colour_def)
  have "only_best_green (panel_mem example_dup_figure) 0"
    using t [THEN conjunct2, THEN conjunct2, THEN conjunct1, rule_format, of 0]
    by (simp add: less_Suc_eq nth_Cons')
  with same blue show ?thesis by simp
qed

subsection \<open>Properties of a whole run\<close>

lemma cell_number_num: "map (\<lambda>x. cell_number l (case x of None \<Rightarrow> NaN | Some v \<Rightarrow> Num v)) xs = xs"
  by (induction xs) (auto simp: cell_number_def split: option.splits)

lemma cell_number_str:
  "map (\<lambda>x. cell_number l (case x of None \<Rightarrow> NaN | Some s \<Rightarrow> Str s)) xs =
   map (\<lambda>x. case x of None \<Rightarrow> None | Some s \<Rightarrow> parse_number l s) xs"
  by (induction xs) (auto simp: cell_number_def split: option.splits)

lemma to_numeric_values:
  "to_numeric (parse_number l) col = NumCol (map (cell_number l) (column_cells col))"
  by (cases col) (simp_all add: to_numeric_def o_def cell_number_num cell_number_str)

lemma idxmin_ok:
  assumes "cols df c = Some (NumCol xs)" and "Some v \<in> set xs"
  shows "\<exists>i. idxmin l df c = Inr (Some i)"
  using assms argmin_skipna_first_min [OF assms(2)]
  by (auto simp: idxmin_def idx_extremum_def)

lemma idxmax_ok:
  assumes "cols df c = Some (NumCol xs)" and "Some v \<in> set xs"
  shows "\<exists>i. idxmax l df c = Inr (Some i)"
  using assms argmax_skipna_first_max [OF assms(2)]
  by (auto simp: idxmax_def idx_extremum_def)

lemma metric_in_numeric: "c \<in> set metric_cols \<Longrightarrow> c \<in> set numeric_cols"
  by (auto simp: metric_cols_def numeric_cols_def)

lemma valid_table_derive:
  assumes v: "valid_table l df0"
  shows "\<exists>df labels b. derive l df0 = Inr (df, labels, b)"
proof -
  from v have ok: "frame_ok df0" and pres: "\<forall>c\<in>set numeric_cols. cols df0 c \<noteq> None"
    by (simp_all add: valid_table_def)
  from v obtain ws where ws: "cols df0 ''Worker Count'' = Some (NumCol (map Some ws))"
    by (auto simp: valid_table_def)
  from coerce_columns_ok [OF pres, of "parse_number l"] obtain df where
    r: "coerce_columns (parse_number l) numeric_cols df0 = Inr df" and n: "nrows df = nrows df0" and
    c: "\<And>c. cols df c = (if c \<in> set numeric_cols then map_option (to_numeric (parse_number l)) (cols df0 c) else cols df0 c)"
    by blast
  have num: "\<exists>col. cols df0 c = Some col \<and>
               cols df c = Some (NumCol (map (cell_number l) (column_cells col))) \<and>
               length (column_cells col) = nrows df"
    if "c \<in> set numeric_cols" for c
  proof -
    from pres that obtain col where col: "cols df0 c = Some col" by auto
    with ok have "length (column_cells col) = nrows df0" unfolding frame_ok_def by blast
    with col c [of c] that n show ?thesis by (simp add: to_numeric_values)
  qed
  have "''Actual Workers'' \<in> set numeric_cols" by (simp add: numeric_cols_def)
  from num [OF this] obtain acol where
    aw: "cols df ''Actual Workers'' = Some (NumCol (map (cell_number l) (column_cells acol)))"
    and la: "length (map (cell_number l) (column_cells acol)) = nrows df"
    by auto
  have wc: "cols df ''Worker Count'' = Some (NumCol (map Some ws))"
    using c [of "''Worker Count''"] ws by (simp add: numeric_cols_def)
  have "length (column_cells (NumCol (map Some ws))) = nrows df0"
    using ok ws unfolding frame_ok_def by blast
  then have lw: "length ws = nrows df" using n by simp
  from worker_labels_numeric [OF wc aw lw la] obtain labels where
    labels: "worker_labels df = Inr labels" by blast
  have val: "\<exists>xs v. cols df m = Some (NumCol xs) \<and> Some v \<in> set xs" if m: "m \<in> set metric_cols" for m
  proof -
    from num [OF metric_in_numeric [OF m]] obtain col where
      col: "cols df0 m = Some col" "cols df m = Some (NumCol (map (cell_number l) (column_cells col)))"
      by blast
    from v m col(1) obtain x where "x \<in> set (column_cells col)" "cell_number l x \<noteq> None"
      unfolding valid_table_def by blast
    then obtain y where "Some y \<in> set (map (cell_number l) (column_cells col))"
      by (cases "cell_number l x") force+
    with col(2) show ?thesis by blast
  qed
  have "''Max Memory (MB)'' \<in> set metric_cols" by (simp add: metric_cols_def)
  from val [OF this] obtain im where im: "idxmin l df ''Max Memory (MB)'' = Inr (Some im)"
    using idxmin_ok by blast
  have "''Avg CPU (%)'' \<in> set metric_cols" by (simp add: metric_cols_def)
  from val [OF this] obtain ic where ic: "idxmin l df ''Avg CPU (%)'' = Inr (Some ic)"
    using idxmin_ok by blast
  have "''Max Disk Read (kB/s)'' \<in> set metric_cols" by (simp add: metric_cols_def)
  from val [OF this] obtain id where id: "idxmax l df ''Max Disk Read (kB/s)'' = Inr (Some id)"
    using idxmax_ok by blast
  have "''Total Time (s)'' \<in> set metric_cols" by (simp add: metric_cols_def)
  from val [OF this] obtain it where it: "idxmin l df ''Total Time (s)'' = Inr (Some it)"
    using idxmin_ok by blast
  have "\<exists>b. find_best l df = Inr b"
    by (simp add: find_best_def im ic id it)
  then obtain b where "find_best l df = Inr b" by blast
  with r labels show ?thesis by (simp add: derive_def)
qed

text \<open>
  C5: for a results directory with a valid table and no \<open>system_info.txt\<close>, the run
  ends with exit code 0, writes the image, and the two captions of the figure are
  \<open>OS: N/A | CPU: N/A\<close> and \<open>Drive Type: N/A\<close>.
\<close>

theorem missing_system_info_defaults:
  assumes "fs (path_join d ''summary.csv'') = Some (File content)"
    and "read_csv l content = Inr df0" and "valid_table l df0"
    and "fs (path_join d ''system_info.txt'') = None"
  shows "\<exists>fig. plot_benchmark_results l fs d =
           \<lparr>status = Exit 0,
            stdout = [''Plot saved to: '' @ path_join d ''benchmark_results.png''],
            written = [(path_join d ''benchmark_results.png'', fig)]\<rparr> \<and>
         caption_system fig = ''OS: N/A | CPU: N/A'' \<and>
         caption_drive fig = ''Drive Type: N/A''"
proof -
  from valid_table_derive [OF assms(3)] obtain df labels b where
    d: "derive l df0 = Inr (df, labels, b)" by blast
  have si: "read_system_info fs (path_join d ''system_info.txt'') = Inr default_sys_info"
    using assms(4) by (simp add: read_system_info_def)
  have lt: "load_table l (File content) = Inr df0"
    using assms(2) by (simp add: load_table_def)
  let ?fig = "make_figure l default_sys_info df labels b"
  have c: "compute l fs d (File content) = Inr (labels, b, ?fig)"
    by (simp add: compute_def lt si d)
  have "plot_benchmark_results l fs d =
           \<lparr>status = Exit 0,
            stdout = [''Plot saved to: '' @ path_join d ''benchmark_results.png''],
            written = [(path_join d ''benchmark_results.png'', ?fig)]\<rparr>"
    using assms(1) c by (simp add: plot_benchmark_results_def Let_def)
  moreover have "caption_system ?fig = ''OS: N/A | CPU: N/A''"
    by (simp add: make_figure_def default_sys_info_def)
  moreover have "caption_drive ?fig = ''Drive Type: N/A''"
    by (simp add: make_figure_def default_sys_info_def)
  ultimately show ?thesis by blast
qed

lemma example_frame_valid: "valid_table l example_frame"
  by (auto simp: valid_table_def frame_ok_def example_frame_def numeric_cols_def metric_cols_def
      cell_number_def split: if_splits intro: exI [of _ "[0, 0, 4]"])

theorem missing_system_info_defaults_witness:
  "\<exists>fig. plot_benchmark_results (example_lib example_frame) example_fs ''results'' =
           \<lparr>status = Exit 0,
            stdout = [''Plot saved to: results/benchmark_results.png''],
            written = [(''results/benchmark_results.png'', fig)]\<rparr> \<and>
         caption_system fig = ''OS: N/A | CPU: N/A'' \<and>
         caption_drive fig = ''Drive Type: N/A''"
proof -
  have a: "example_fs (path_join ''results'' ''summary.csv'') = Some (File ''table'')"
    "read_csv (example_lib example_frame) ''table'' = Inr example_frame"
    "valid_table (example_lib example_frame) example_frame"
    "example_fs (path_join ''results'' ''system_info.txt'') = None"
    by (simp_all add: example_fs_def path_join_def example_lib_def example_frame_valid)
  from missing_system_info_defaults [OF a] show ?thesis
    by (simp add: path_join_def)
qed






subsection \<open>A metric column without any value\<close>

text \<open>
  The extremum of a column without any value is no row. What the run does then is the
  library's choice: with a library that raises, the run ends before the image is
  written; with one that returns a missing index, no bar of the panel is green and the
  image is written.
\<close>

lemma idx_extremum_all_missing:
  assumes "xs \<noteq> []" and "\<forall>x\<in>set xs. x = None"
  shows "idx_extremum r argmin_skipna (NumCol xs) = (if r then Inl ValueError else Inr None)"
    and "idx_extremum r argmax_skipna (NumCol xs) = (if r then Inl ValueError else Inr None)"
  using assms
  by (simp_all add: idx_extremum_def argmin_skipna_def argmax_skipna_def argmin_skipna_all_missing)

lemma make_palette_no_best:
  "make_palette None labels l = (if l \<in> set labels then Some ''#1f77b4'' else None)"
  by (induction labels rule: rev_induct) (simp_all add: make_palette_Nil make_palette_snoc bar_colour_def)

lemma example_no_values_derive:
  "derive (example_lib example_frame_no_values) example_frame_no_values = Inl ValueError"
  by (simp add: derive_def numeric_cols_def to_numeric_def example_frame_no_values_def
      worker_labels_def frame_rows_def row_at_def create_label_def upt_rec
      find_best_def idxmin_def idxmax_def idx_extremum_def argmin_skipna_def argmax_skipna_def
      example_lib_def eval_strings fun_upd_twist)

lemma all_missing_metric_raises:
  "plot_benchmark_results (example_lib example_frame_no_values) example_fs ''results'' =
     \<lparr>status = Uncaught ValueError, stdout = [], written = []\<rparr>"
proof -
  have lt: "load_table (example_lib example_frame_no_values) (File ''table'') =
              Inr example_frame_no_values"
    by (simp add: load_table_def example_lib_def)
  have si: "read_system_info example_fs (path_join ''results'' ''system_info.txt'') =
              Inr default_sys_info"
    by (simp add: read_system_info_def example_fs_def path_join_def)
  have s: "example_fs (path_join ''results'' ''summary.csv'') = Some (File ''table'')"
    by (simp add: example_fs_def path_join_def)
  show ?thesis
    by (simp add: plot_benchmark_results_def Let_def s compute_def lt si
        example_no_values_derive raise_def)
qed

lemma example_no_values_derive_na:
  "derive (example_lib_na example_frame_no_values) example_frame_no_values =
     Inr (example_frame_no_values, [''Auto (8)'', ''Auto (N/A)'', ''4''],
          \<lparr>best_mem_idx = None, best_cpu_idx = Some 2, best_disk_idx = Some 1,
           best_time_idx = Some 2\<rparr>)"
  by (simp add: derive_def numeric_cols_def to_numeric_def example_frame_no_values_def
      worker_labels_def frame_rows_def row_at_def create_label_def upt_rec
      find_best_def idxmin_def idxmax_def idx_extremum_def argmin_skipna_def argmax_skipna_def
      example_lib_def example_lib_na_def eval_strings fun_upd_twist)

lemma all_missing_metric_no_highlight:
  "\<exists>fig. plot_benchmark_results (example_lib_na example_frame_no_values) example_fs ''results'' =
           \<lparr>status = Exit 0,
            stdout = [''Plot saved to: results/benchmark_results.png''],
            written = [(''results/benchmark_results.png'', fig)]\<rparr> \<and>
         list_all (\<lambda>i. row_colour (panel_mem fig) i = Some ''#1f77b4'') [0, 1, 2]"
proof -
  let ?L = "example_lib_na example_frame_no_values"
  have lt: "load_table ?L (File ''table'') = Inr example_frame_no_values"
    by (simp add: load_table_def example_lib_def example_lib_na_def)
  have si: "read_system_info example_fs (path_join ''results'' ''system_info.txt'') =
              Inr default_sys_info"
    by (simp add: read_system_info_def example_fs_def path_join_def)
  have s: "example_fs (path_join ''results'' ''summary.csv'') = Some (File ''table'')"
    by (simp add: example_fs_def path_join_def)
  let ?fig = "make_figure ?L default_sys_info example_frame_no_values
                [''Auto (8)'', ''Auto (N/A)'', ''4'']
                \<lparr>best_mem_idx = None, best_cpu_idx = Some 2, best_disk_idx = Some 1,
                 best_time_idx = Some 2\<rparr>"
  have "plot_benchmark_results ?L example_fs ''results'' =
           \<lparr>status = Exit 0,
            stdout = [''Plot saved to: results/benchmark_results.png''],
            written = [(''results/benchmark_results.png'', ?fig)]\<rparr>"
    by (simp add: plot_benchmark_results_def Let_def s compute_def lt si
        example_no_values_derive_na) (simp add: path_join_def)
  moreover have "list_all (\<lambda>i. row_colour (panel_mem ?fig) i = Some ''#1f77b4'') [0, 1, 2]"
    by (simp add: make_figure_def make_panel_def row_colour_def make_palette_no_best)
  ultimately show ?thesis by blast
qed

subsection \<open>Decimal strings\<close>

text \<open>
  \<open>str\<close> of an integer is its decimal notation: it consists of digits (after the
  sign) and \<open>int\<close> reads it back to the same integer.
\<close>

lemma digit_char_props:
  assumes "d < 10"
  shows "is_digit (digit_char d) \<and> digit_val (digit_char d) = d \<and> \<not> py_isspace (digit_char d) \<and>
         digit_char d \<noteq> CHR ''_'' \<and> digit_char d \<noteq> CHR ''-'' \<and> digit_char d \<noteq> CHR ''+''"
proof -
  from assms have "d \<in> {0, 1, 2, 3, 4, 5, 6, 7, 8, 9}" by auto
  then show ?thesis
    by (elim insertE emptyE) (simp_all add: digit_char_def is_digit_def digit_val_def py_isspace_def)
qed

lemma digits_value_snoc: "digits_value (ds @ [c]) = 10 * digits_value ds + digit_val c"
  by (simp add: digits_value_def)

lemma str_nat_props:
  "str_nat n \<noteq> [] \<and> (\<forall>c\<in>set (str_nat n). is_digit c) \<and> digits_value (str_nat n) = n"
proof (induction n rule: str_nat.induct)
  case (1 n)
  show ?case
  proof (cases "n < 10")
    case True
    then have "str_nat n = [digit_char n]" by (simp add: str_nat.simps)
    with digit_char_props [OF True] show ?thesis by (simp add: digits_value_def)
  next
    case False
    then have s: "str_nat n = str_nat (n div 10) @ [digit_char (n mod 10)]"
      by (subst str_nat.simps) simp
    have "n mod 10 < 10" by simp
    from digit_char_props [OF this] 1 [OF False] s show ?thesis
      by (simp add: digits_value_snoc)
  qed
qed

lemma is_digit_not_underscore: "is_digit c \<Longrightarrow> c \<noteq> CHR ''_''"
  by (auto simp: is_digit_def)

lemma int_body_digits: "ds \<noteq> [] \<Longrightarrow> \<forall>c\<in>set ds. is_digit c \<Longrightarrow> int_body ds = Some ds"
  by (induction ds rule: int_body.induct) (auto simp: is_digit_not_underscore)

lemma strip_id:
  assumes "s \<noteq> []" and "\<not> py_isspace (hd s)" and "\<not> py_isspace (last s)"
  shows "strip s = s"
proof -
  from assms(1,2) have "dropWhile py_isspace s = s" by (cases s) simp_all
  moreover from assms(1,3) have "dropWhile py_isspace (rev s) = rev s"
    by (cases "rev s") (simp_all add: last_rev [symmetric] hd_rev)
  ultimately show ?thesis by (simp add: strip_def)
qed

lemma is_digit_not_space: "is_digit c \<Longrightarrow> \<not> py_isspace c"
  by (auto simp: is_digit_def py_isspace_def)

lemma is_digit_not_sign: "is_digit c \<Longrightarrow> c \<noteq> CHR ''-'' \<and> c \<noteq> CHR ''+''"
  by (auto simp: is_digit_def)

lemma minus_not_space: "\<not> py_isspace CHR ''-''"
  by (simp add: py_isspace_def)

lemma py_int_str_digits:
  assumes ne: "ds \<noteq> []" and dg: "\<forall>c\<in>set ds. is_digit c"
  shows "py_int_str ds = Some (int (digits_value ds))"
    and "py_int_str (CHR ''-'' # ds) = Some (- int (digits_value ds))"
proof -
  from ne obtain c cs where ccs: "ds = c # cs" by (cases ds) auto
  from ne dg have l: "\<not> py_isspace (last ds)" and h: "\<not> py_isspace (hd ds)"
    by (simp_all add: is_digit_not_space)
  have b: "int_body ds = Some ds" using int_body_digits [OF ne dg] .
  have s1: "strip ds = ds" using ne h l by (rule strip_id)
  have "c \<noteq> CHR ''-''" "c \<noteq> CHR ''+''"
    using dg ccs is_digit_not_sign [of c] by simp_all
  with s1 b ccs show "py_int_str ds = Some (int (digits_value ds))"
    by (simp add: py_int_str_def)
  have s2: "strip (CHR ''-'' # ds) = CHR ''-'' # ds"
    using ne l by (intro strip_id) (simp_all add: minus_not_space)
  with b show "py_int_str (CHR ''-'' # ds) = Some (- int (digits_value ds))"
    by (simp add: py_int_str_def)
qed

lemma py_int_str_py_str_int: "py_int_str (py_str_int i) = Some i"
proof (cases "i < 0")
  case True
  from str_nat_props [of "nat (- i)"] py_int_str_digits(2) [of "str_nat (nat (- i))"] True
  show ?thesis by (simp add: py_str_int_def)
next
  case False
  from str_nat_props [of "nat i"] py_int_str_digits(1) [of "str_nat (nat i)"] False
  show ?thesis by (simp add: py_str_int_def)
qed

end
